theory Spec2Isabelle
  imports Main
begin

section \<open>Values and collaborators of app.js\<close>

text \<open>
  The gateway is one Express application: a helper \<^verbatim>\<open>executeQuery\<close> over a MySQL
  pool, \<^verbatim>\<open>authenticateWithStrava\<close> (the refresh exchange), the middleware
  \<^verbatim>\<open>ensureAccessToken\<close> and six route handlers. What lies outside the file (the
  database and the two upstream servers) is an explicit state \<open>world\<close>: the table, what
  each collaborator will answer, and a log of what the program did to it. The reading
  of \<^verbatim>\<open>Date.now()\<close> is a parameter \<open>now\<close>.
\<close>

datatype json =
    JNull
  | JBool bool
  | JNumber int
  | JString string
  | JArray "json list"
  | JObject "(string \<times> json) list"

text \<open>What a rejected promise or a thrown exception carries.\<close>

datatype js_error =
    PoolError          \<comment> \<open>\<^verbatim>\<open>err\<close> of \<^verbatim>\<open>pool.getConnection\<close>\<close>
  | QueryError         \<comment> \<open>\<^verbatim>\<open>error\<close> of \<^verbatim>\<open>connection.query\<close>\<close>
  | AxiosError "nat option"
      \<comment> \<open>axios rejects: no response (\<open>None\<close>) or a non-2xx status\<close>
  | TypeError          \<comment> \<open>destructuring \<^verbatim>\<open>undefined\<close> or \<^verbatim>\<open>null\<close>\<close>

text \<open>
  The columns of \<^verbatim>\<open>strava_auth\<close> the program reads and writes. The schema is not
  part of the file; the upstream supplies two strings and a number (an epoch
  timestamp), the \<^verbatim>\<open>UPDATE\<close> stores them as they come, and the \<^verbatim>\<open>SELECT\<close> reads
  them back as such.
\<close>

record token_row =
  access_token :: string
  refresh_token :: string
  expires_at :: int

text \<open>\<^verbatim>\<open>config.strava\<close>, as far as the file reads it.\<close>

record strava_config =
  clientId :: string
  clientSecret :: string
  accessToken :: string

datatype http_method = GET | POST | PUT

text \<open>An outbound axios call: method, URL, JSON body and the Authorization header.\<close>

record http_request =
  req_method :: http_method
  url :: string
  data :: "json option"
  authorization :: "string option"

text \<open>What \<^verbatim>\<open>res.json\<close> / \<^verbatim>\<open>res.status(500).json\<close> send to the client.\<close>

record http_response =
  status :: nat
  body :: json

text \<open>The two statements the file issues, with their parameters.\<close>

datatype sql =
    Select              \<comment> \<open>\<^verbatim>\<open>SELECT * FROM strava_auth WHERE id = 1\<close>\<close>
  | Update token_row    \<comment> \<open>\<^verbatim>\<open>UPDATE strava_auth SET ... WHERE id = 1\<close>\<close>

datatype query_result = Rows "token_row list" | OkPacket

datatype db_outcome = ConnectionFails | QueryFails | Works

text \<open>
  \<open>strava_auth\<close> holds the rows with \<^verbatim>\<open>id = 1\<close>. \<open>pool\<close>, \<open>oauth\<close> and \<open>api\<close> say
  what the database, the authorization endpoint and the API will answer to the k-th
  query and the k-th outbound request; \<open>queries\<close>, \<open>sent\<close> and \<open>console\<close> log the calls of
  \<^verbatim>\<open>executeQuery\<close>, of axios and of \<^verbatim>\<open>console.error\<close>.
\<close>

record world =
  strava_auth :: "token_row list"
  pool :: "nat \<Rightarrow> db_outcome"
  oauth :: "nat \<Rightarrow> js_error + token_row"
  api :: "nat \<Rightarrow> js_error + json"
  queries :: "sql list"
  sent :: "http_request list"
  console :: "string list"

definition stravaApiBaseUrl :: string where
  "stravaApiBaseUrl = ''https://www.strava.com/api/v3''"

definition authBaseUrl :: string where
  "authBaseUrl = ''https://www.strava.com/oauth''"

section \<open>executeQuery\<close>

text \<open>
  The promise rejects when no connection is obtained or when the query errs, and
  resolves with the results otherwise. A statement answered with an error has not
  changed the table. The \<^verbatim>\<open>UPDATE\<close> overwrites the three columns of every row with
  \<^verbatim>\<open>id = 1\<close>; on an empty table it succeeds and changes nothing.
\<close>

definition executeQuery :: "sql \<Rightarrow> world \<Rightarrow> (js_error + query_result) \<times> world" where
  "executeQuery query w =
     (let w' = w\<lparr>queries := queries w @ [query]\<rparr> in
      case pool w (length (queries w)) of
        ConnectionFails \<Rightarrow> (Inl PoolError, w')
      | QueryFails \<Rightarrow> (Inl QueryError, w')
      | Works \<Rightarrow>
          (case query of
             Select \<Rightarrow> (Inr (Rows (strava_auth w)), w')
           | Update r \<Rightarrow> (Inr OkPacket, w'\<lparr>strava_auth := map (\<lambda>_. r) (strava_auth w)\<rparr>)))"

section \<open>authenticateWithStrava\<close>

definition token_request :: "strava_config \<Rightarrow> http_request" where
  "token_request config =
     \<lparr>req_method = POST, url = authBaseUrl @ ''/token'',
      data = Some (JObject
        [(''client_id'', JString (clientId config)),
         (''client_secret'', JString (clientSecret config)),
         (''grant_type'', JString ''refresh_token''),
         (''refresh_token'', JString (accessToken config))]),
      authorization = None\<rparr>"

text \<open>
  \<^verbatim>\<open>await axios.post(`${authBaseUrl}/token`, {...})\<close> with \<^verbatim>\<open>response.data\<close>
  destructured: a call that resolves carries the three fields, a call that is rejected
  (no response, or a status outside 2xx) carries the error.
\<close>

definition post_token :: "strava_config \<Rightarrow> world \<Rightarrow> (js_error + token_row) \<times> world" where
  "post_token config w =
     (oauth w (length (sent w)), w\<lparr>sent := sent w @ [token_request config]\<rparr>)"

definition log_error :: "string \<Rightarrow> world \<Rightarrow> world" where
  "log_error msg w = w\<lparr>console := console w @ [msg]\<rparr>"

definition authenticateWithStrava :: "strava_config \<Rightarrow> world \<Rightarrow> (js_error + string) \<times> world" where
  "authenticateWithStrava config w =
     (case post_token config w of
        (Inl error, w1) \<Rightarrow> (Inl error, log_error ''Error authenticating with Strava:'' w1)
      | (Inr response_data, w1) \<Rightarrow>
          (case executeQuery (Update response_data) w1 of
             (Inl error, w2) \<Rightarrow> (Inl error, log_error ''Error authenticating with Strava:'' w2)
           | (Inr _, w2) \<Rightarrow> (Inr (access_token response_data), w2)))"

section \<open>ensureAccessToken\<close>

text \<open>
  \<^verbatim>\<open>new Date(v).getTime()\<close> for a number \<open>v\<close>: the time value \<open>v\<close> itself, in
  milliseconds, when it lies within 8.64e15 of the epoch, and NaN (\<open>None\<close>) otherwise.
  All the numbers involved are integers below \<open>2 ^ 53\<close>, so the double arithmetic of
  the check is exact.
\<close>

definition Date_getTime :: "int \<Rightarrow> int option" where
  "Date_getTime v = (if \<bar>v\<bar> \<le> 8640000000000000 then Some v else None)"

text \<open>
  \<^verbatim>\<open>Date.now() > new Date(expires_at).getTime() - 60000\<close>; a comparison with NaN is
  false.
\<close>

definition token_stale :: "int \<Rightarrow> int \<Rightarrow> bool" where
  "token_stale now e =
     (case Date_getTime e of None \<Rightarrow> False | Some t \<Rightarrow> now > t - 60000)"

text \<open>\<^verbatim>\<open>const {...} = results[0]\<close>: destructuring \<^verbatim>\<open>undefined\<close> throws.\<close>

definition first_row :: "query_result \<Rightarrow> js_error + token_row" where
  "first_row results =
     (case results of
        Rows (row # _) \<Rightarrow> Inr row
      | Rows [] \<Rightarrow> Inl TypeError
      | OkPacket \<Rightarrow> Inl TypeError)"

text \<open>The \<^verbatim>\<open>try\<close> block of the middleware, up to \<^verbatim>\<open>req.accessToken = ...\<close>.\<close>

definition ensureAccessToken_try ::
    "strava_config \<Rightarrow> int \<Rightarrow> world \<Rightarrow> (js_error + string) \<times> world" where
  "ensureAccessToken_try config now w =
     (case executeQuery Select w of
        (Inl error, w1) \<Rightarrow> (Inl error, w1)
      | (Inr results, w1) \<Rightarrow>
          (case first_row results of
             Inl error \<Rightarrow> (Inl error, w1)
           | Inr row \<Rightarrow>
               if token_stale now (expires_at row)
               then authenticateWithStrava config w1
               else (Inr (access_token row), w1)))"

definition internal_server_error :: http_response where
  "internal_server_error =
     \<lparr>status = 500, body = JObject [(''error'', JString ''Internal Server Error'')]\<rparr>"

text \<open>
  The middleware: \<open>Inr token\<close> is \<^verbatim>\<open>next()\<close> with \<^verbatim>\<open>req.accessToken = token\<close>,
  \<open>Inl r\<close> is the response of the \<^verbatim>\<open>catch\<close> block, after which the route handler
  does not run.
\<close>

definition ensureAccessToken ::
    "strava_config \<Rightarrow> int \<Rightarrow> world \<Rightarrow> (http_response + string) \<times> world" where
  "ensureAccessToken config now w =
     (case ensureAccessToken_try config now w of
        (Inl error, w1) \<Rightarrow> (Inl internal_server_error, w1)
      | (Inr token, w1) \<Rightarrow> (Inr token, w1))"

section \<open>Route handlers\<close>

datatype route =
    GetAthlete              \<comment> \<open>\<^verbatim>\<open>GET /athlete\<close>\<close>
  | PostActivities          \<comment> \<open>\<^verbatim>\<open>POST /activities\<close>\<close>
  | GetActivity             \<comment> \<open>\<^verbatim>\<open>GET /activities/:id\<close>\<close>
  | GetActivityComments     \<comment> \<open>\<^verbatim>\<open>GET /activities/:id/comments\<close>\<close>
  | GetAthleteActivities    \<comment> \<open>\<^verbatim>\<open>GET /athlete/activities\<close>\<close>
  | PutActivity             \<comment> \<open>\<^verbatim>\<open>PUT /activities/:id\<close>\<close>

text \<open>
  What a handler reads of \<^verbatim>\<open>req\<close>: \<^verbatim>\<open>req.params.id\<close> and \<^verbatim>\<open>req.body\<close>, which is
  \<^verbatim>\<open>undefined\<close> (\<open>None\<close>) unless a body parser has filled it.
\<close>

record request =
  params_id :: string
  req_body :: "json option"

fun property :: "json \<Rightarrow> string \<Rightarrow> json option" where
  "property (JObject members) k = map_of members k"
| "property _ k = None"

text \<open>
  \<^verbatim>\<open>const { k1, k2 } = req.body\<close> followed by the object literal \<^verbatim>\<open>{ k1, k2 }\<close> that axios
  serialises: destructuring \<^verbatim>\<open>undefined\<close> or \<^verbatim>\<open>null\<close> throws, and a member that is
  \<^verbatim>\<open>undefined\<close> is left out of the JSON text.
\<close>

definition destructure :: "string list \<Rightarrow> json option \<Rightarrow> js_error + json" where
  "destructure keys v =
     (case v of
        None \<Rightarrow> Inl TypeError
      | Some JNull \<Rightarrow> Inl TypeError
      | Some b \<Rightarrow>
          Inr (JObject (concat (map
            (\<lambda>k. case property b k of None \<Rightarrow> [] | Some x \<Rightarrow> [(k, x)]) keys))))"

definition bearer :: "string \<Rightarrow> string option" where
  "bearer token = Some (''Bearer '' @ token)"

text \<open>The axios call each handler builds; \<open>Inl\<close> when building it throws.\<close>

definition upstream_request :: "route \<Rightarrow> request \<Rightarrow> string \<Rightarrow> js_error + http_request" where
  "upstream_request r req token =
     (case r of
        GetAthlete \<Rightarrow>
          Inr \<lparr>req_method = GET, url = stravaApiBaseUrl @ ''/athlete'',
               data = None, authorization = bearer token\<rparr>
      | PostActivities \<Rightarrow>
          (case destructure [''user_id'', ''access_token'', ''refresh_token'', ''expires_at'']
                  (req_body req) of
             Inl error \<Rightarrow> Inl error
           | Inr members \<Rightarrow>
               Inr \<lparr>req_method = POST, url = stravaApiBaseUrl @ ''/activities'',
                    data = Some members, authorization = bearer token\<rparr>)
      | GetActivity \<Rightarrow>
          Inr \<lparr>req_method = GET, url = stravaApiBaseUrl @ ''/activities/'' @ params_id req,
               data = None, authorization = bearer token\<rparr>
      | GetActivityComments \<Rightarrow>
          Inr \<lparr>req_method = GET,
               url = stravaApiBaseUrl @ ''/activities/'' @ params_id req @ ''/comments'',
               data = None, authorization = bearer token\<rparr>
      | GetAthleteActivities \<Rightarrow>
          Inr \<lparr>req_method = GET, url = stravaApiBaseUrl @ ''/athlete/activities'',
               data = None, authorization = bearer token\<rparr>
      | PutActivity \<Rightarrow>
          (case destructure [''name'', ''type''] (req_body req) of
             Inl error \<Rightarrow> Inl error
           | Inr members \<Rightarrow>
               Inr \<lparr>req_method = PUT, url = stravaApiBaseUrl @ ''/activities/'' @ params_id req,
                    data = Some members, authorization = bearer token\<rparr>))"

definition error_message :: "route \<Rightarrow> string" where
  "error_message r =
     (case r of
        GetAthlete \<Rightarrow> ''Error retrieving athlete:''
      | PostActivities \<Rightarrow> ''Error creating activity:''
      | GetActivity \<Rightarrow> ''Error retrieving activity:''
      | GetActivityComments \<Rightarrow> ''Error listing activity comments:''
      | GetAthleteActivities \<Rightarrow> ''Error listing athlete activities:''
      | PutActivity \<Rightarrow> ''Error updating activity:'')"

text \<open>An axios call to the API: resolves with \<^verbatim>\<open>response.data\<close> or rejects.\<close>

definition axios :: "http_request \<Rightarrow> world \<Rightarrow> (js_error + json) \<times> world" where
  "axios request w = (api w (length (sent w)), w\<lparr>sent := sent w @ [request]\<rparr>)"

text \<open>The \<^verbatim>\<open>try\<close> block of a handler, up to \<^verbatim>\<open>response.data\<close>.\<close>

definition handler_try ::
    "route \<Rightarrow> request \<Rightarrow> string \<Rightarrow> world \<Rightarrow> (js_error + json) \<times> world" where
  "handler_try r req token w =
     (case upstream_request r req token of
        Inl error \<Rightarrow> (Inl error, w)
      | Inr request \<Rightarrow> axios request w)"

text \<open>\<^verbatim>\<open>res.json(response.data)\<close>, or the \<^verbatim>\<open>catch\<close> block.\<close>

definition handler :: "route \<Rightarrow> request \<Rightarrow> string \<Rightarrow> world \<Rightarrow> http_response \<times> world" where
  "handler r req token w =
     (case handler_try r req token w of
        (Inl error, w1) \<Rightarrow> (internal_server_error, log_error (error_message r) w1)
      | (Inr response_data, w1) \<Rightarrow> (\<lparr>status = 200, body = response_data\<rparr>, w1))"

text \<open>A route as registered: the middleware, then the handler if \<^verbatim>\<open>next()\<close> was called.\<close>

definition serve ::
    "strava_config \<Rightarrow> int \<Rightarrow> route \<Rightarrow> request \<Rightarrow> world \<Rightarrow> http_response \<times> world" where
  "serve config now r req w =
     (case ensureAccessToken config now w of
        (Inl response, w1) \<Rightarrow> (response, w1)
      | (Inr token, w1) \<Rightarrow> handler r req token w1)"

text \<open>
  How a request ends for the process. The middleware and the handlers are async
  functions: one that throws gives a rejected promise, and Express does not look at
  that promise, so an error that got out of the function's own \<^verbatim>\<open>catch\<close> would be
  handled by nothing in the file (an unhandled rejection, on which Node ends the
  process). A request ends answered, with the response that was sent, or unhandled,
  with the error that got out.
\<close>

datatype ending = Answered http_response | Unhandled js_error

text \<open>
  The \<^verbatim>\<open>catch\<close> block of the middleware and the one the six handlers share but for
  the message: each sends the 500 and returns. Neither has the \<^verbatim>\<open>throw error\<close> of
  the one in \<^verbatim>\<open>authenticateWithStrava\<close>.
\<close>

definition ensureAccessToken_catch :: "js_error \<Rightarrow> world \<Rightarrow> ending \<times> world" where
  "ensureAccessToken_catch error w = (Answered internal_server_error, w)"

definition handler_catch :: "route \<Rightarrow> js_error \<Rightarrow> world \<Rightarrow> ending \<times> world" where
  "handler_catch r error w = (Answered internal_server_error, log_error (error_message r) w)"

text \<open>
  The two \<^verbatim>\<open>try\<close> blocks in turn, each under its \<^verbatim>\<open>catch\<close>; the handler runs when
  the middleware reached \<^verbatim>\<open>next()\<close>, and answers with \<^verbatim>\<open>res.json(response.data)\<close>.
\<close>

definition request_ending ::
    "strava_config \<Rightarrow> int \<Rightarrow> route \<Rightarrow> request \<Rightarrow> world \<Rightarrow> ending \<times> world" where
  "request_ending config now r req w =
     (case ensureAccessToken_try config now w of
        (Inl error, w1) \<Rightarrow> ensureAccessToken_catch error w1
      | (Inr token, w1) \<Rightarrow>
          (case handler_try r req token w1 of
             (Inl error, w2) \<Rightarrow> handler_catch r error w2
           | (Inr response_data, w2) \<Rightarrow>
               (Answered \<lparr>status = 200, body = response_data\<rparr>, w2)))"

text \<open>
  What a client sends: the route it hits, the \<^verbatim>\<open>:id\<close> segment and a JSON payload.
  The file registers no body-parsing middleware on \<^verbatim>\<open>app\<close> (there is no
  \<^verbatim>\<open>app.use\<close>), so Express never reads the payload and every handler sees
  \<^verbatim>\<open>req.body\<close> undefined.
\<close>

record incoming =
  route_of :: route
  id_of :: string
  payload :: "json option"

definition express_request :: "incoming \<Rightarrow> request" where
  "express_request m = \<lparr>params_id = id_of m, req_body = None\<rparr>"

definition app :: "strava_config \<Rightarrow> int \<Rightarrow> incoming \<Rightarrow> world \<Rightarrow> http_response \<times> world" where
  "app config now m w = serve config now (route_of m) (express_request m) w"

section \<open>Requests in flight together\<close>

text \<open>
  Node runs one continuation at a time and switches between requests at every
  \<^verbatim>\<open>await\<close>. A request inside the middleware is therefore at one of its three awaits
  (the \<^verbatim>\<open>SELECT\<close>, the token POST, the \<^verbatim>\<open>UPDATE\<close>), holding the answer it will be
  resumed with, or it has not started, or it is through.
\<close>

datatype task =
    Start
  | AwaitSelect "js_error + query_result"
  | AwaitPost "js_error + token_row"
  | AwaitUpdate string "js_error + query_result"
  | Finished "http_response + string"

text \<open>
  One continuation of the middleware, run to its next \<^verbatim>\<open>await\<close>; \<open>now\<close> is what
  \<^verbatim>\<open>Date.now()\<close> reads while it runs.
\<close>

fun resume :: "strava_config \<Rightarrow> int \<Rightarrow> world \<Rightarrow> task \<Rightarrow> task \<times> world" where
  "resume config now w Start =
     (case executeQuery Select w of (answer, w1) \<Rightarrow> (AwaitSelect answer, w1))"
| "resume config now w (AwaitSelect (Inl error)) = (Finished (Inl internal_server_error), w)"
| "resume config now w (AwaitSelect (Inr results)) =
     (case first_row results of
        Inl error \<Rightarrow> (Finished (Inl internal_server_error), w)
      | Inr row \<Rightarrow>
          if token_stale now (expires_at row)
          then (case post_token config w of (answer, w1) \<Rightarrow> (AwaitPost answer, w1))
          else (Finished (Inr (access_token row)), w))"
| "resume config now w (AwaitPost (Inl error)) =
     (Finished (Inl internal_server_error), log_error ''Error authenticating with Strava:'' w)"
| "resume config now w (AwaitPost (Inr response_data)) =
     (case executeQuery (Update response_data) w of
        (answer, w1) \<Rightarrow> (AwaitUpdate (access_token response_data) answer, w1))"
| "resume config now w (AwaitUpdate token (Inl error)) =
     (Finished (Inl internal_server_error), log_error ''Error authenticating with Strava:'' w)"
| "resume config now w (AwaitUpdate token (Inr _)) = (Finished (Inr token), w)"
| "resume config now w (Finished r) = (Finished r, w)"

text \<open>
  A schedule names, step by step, the request whose continuation runs next and the
  clock reading at that moment.
\<close>

definition step ::
    "strava_config \<Rightarrow> nat \<times> int \<Rightarrow> task list \<times> world \<Rightarrow> task list \<times> world" where
  "step config s c =
     (case s of (i, now) \<Rightarrow>
        case c of (ts, w) \<Rightarrow>
          if i < length ts
          then (case resume config now w (ts ! i) of (t', w') \<Rightarrow> (ts[i := t'], w'))
          else (ts, w))"

definition run ::
    "strava_config \<Rightarrow> (nat \<times> int) list \<Rightarrow> task list \<times> world \<Rightarrow> task list \<times> world" where
  "run config schedule c = fold (step config) schedule c"

text \<open>Every request in turn, once.\<close>

definition round_robin :: "nat \<Rightarrow> int \<Rightarrow> (nat \<times> int) list" where
  "round_robin n now = map (\<lambda>i. (i, now)) [0..<n]"

text \<open>The same, request by request down the list: what one round of turns comes to.\<close>

fun sweep :: "strava_config \<Rightarrow> int \<Rightarrow> task list \<Rightarrow> world \<Rightarrow> task list \<times> world" where
  "sweep config now [] w = ([], w)"
| "sweep config now (t # ts) w =
     (case resume config now w t of
        (t', w1) \<Rightarrow> (case sweep config now ts w1 of (ts', w2) \<Rightarrow> (t' # ts', w2)))"

definition is_refresh :: "http_request \<Rightarrow> bool" where
  "is_refresh request = (url request = authBaseUrl @ ''/token'')"

definition refresh_calls :: "world \<Rightarrow> nat" where
  "refresh_calls w = length (filter is_refresh (sent w))"

text \<open>
  A request that has not yet acted on what it read may still post an exchange; one
  that has will not post again. The count of the former, added to the exchanges
  posted so far, never grows.
\<close>

definition undecided :: "task \<Rightarrow> nat" where
  "undecided t = (case t of Start \<Rightarrow> 1 | AwaitSelect _ \<Rightarrow> 1 | _ \<Rightarrow> 0)"

definition potential :: "task list \<times> world \<Rightarrow> nat" where
  "potential c = refresh_calls (snd c) + sum_list (map undecided (fst c))"

section \<open>Sample data\<close>

definition config0 :: strava_config where
  "config0 = \<lparr>clientId = ''12345'', clientSecret = ''s3cret'', accessToken = ''CFG''\<rparr>"

definition row0 :: token_row where
  "row0 = \<lparr>access_token = ''A1'', refresh_token = ''R1'', expires_at = 1000000\<rparr>"

definition row2 :: token_row where
  "row2 = \<lparr>access_token = ''A2'', refresh_token = ''R2'', expires_at = 5000000\<rparr>"

definition row3 :: token_row where
  "row3 = \<lparr>access_token = ''A3'', refresh_token = ''R3'', expires_at = 5000000\<rparr>"

text \<open>
  A healthy world around a table holding \<open>row0\<close>: the database works, the authorization
  endpoint answers \<open>row2\<close> first and \<open>row3\<close> afterwards, the API answers with an empty
  object.
\<close>

definition world0 :: world where
  "world0 =
     \<lparr>strava_auth = [row0],
      pool = (\<lambda>k. Works),
      oauth = (\<lambda>k. if k = 0 then Inr row2 else Inr row3),
      api = (\<lambda>k. Inr (JObject [])),
      queries = [], sent = [], console = []\<rparr>"

text \<open>The same world with no row in the table, and with a database that is down.\<close>

definition world_empty :: world where
  "world_empty = world0\<lparr>strava_auth := []\<rparr>"

definition world_down :: world where
  "world_down = world0\<lparr>pool := (\<lambda>k. ConnectionFails)\<rparr>"

text \<open>The authorization endpoint answers 400; the database accepts reads only.\<close>

definition world_rejecting :: world where
  "world_rejecting = world0\<lparr>oauth := (\<lambda>k. Inl (AxiosError (Some 400)))\<rparr>"

definition world_readonly :: world where
  "world_readonly = world0\<lparr>pool := (\<lambda>k. if k = 0 then Works else QueryFails)\<rparr>"

text \<open>The API answers 404.\<close>

definition world_api_404 :: world where
  "world_api_404 = world0\<lparr>api := (\<lambda>k. Inl (AxiosError (Some 404)))\<rparr>"

text \<open>
  A row as the upstream fills it: \<open>expires_at\<close> in seconds since the epoch
  (2023-11-15 04:13:20 UTC), six hours after the call time used with it.
\<close>

definition row_seconds :: token_row where
  "row_seconds = \<lparr>access_token = ''A1'', refresh_token = ''R1'', expires_at = 1700021600\<rparr>"

definition world_seconds :: world where
  "world_seconds = world0\<lparr>strava_auth := [row_seconds]\<rparr>"

text \<open>A client's \<^verbatim>\<open>PUT /activities/42\<close> with a JSON body.\<close>

definition put_42 :: incoming where
  "put_42 =
     \<lparr>route_of = PutActivity, id_of = ''42'',
      payload = Some (JObject [(''name'', JString ''Morning Ride''), (''type'', JString ''Ride'')])\<rparr>"

text \<open>What a handler sees of a request for activity 42.\<close>

definition request_42 :: request where
  "request_42 = \<lparr>params_id = ''42'', req_body = None\<rparr>"

section \<open>What each call does\<close>

text \<open>\<^verbatim>\<open>executeQuery\<close> touches the table and its own log only.\<close>

lemma executeQuery_frame:
  "pool (snd (executeQuery q w)) = pool w"
  "oauth (snd (executeQuery q w)) = oauth w"
  "api (snd (executeQuery q w)) = api w"
  "sent (snd (executeQuery q w)) = sent w"
  "console (snd (executeQuery q w)) = console w"
  "queries (snd (executeQuery q w)) = queries w @ [q]"
  by (simp_all add: executeQuery_def Let_def split: db_outcome.split sql.split)

lemma executeQuery_Select:
  "pool w (length (queries w)) = Works \<Longrightarrow>
     executeQuery Select w = (Inr (Rows (strava_auth w)), w\<lparr>queries := queries w @ [Select]\<rparr>)"
  by (simp add: executeQuery_def)

lemma executeQuery_Update:
  "pool w (length (queries w)) = Works \<Longrightarrow>
     executeQuery (Update r) w =
       (Inr OkPacket,
        w\<lparr>queries := queries w @ [Update r], strava_auth := map (\<lambda>_. r) (strava_auth w)\<rparr>)"
  by (simp add: executeQuery_def)

lemma executeQuery_rejects:
  "pool w (length (queries w)) \<noteq> Works \<Longrightarrow>
     \<exists>error. error \<noteq> TypeError
       \<and> executeQuery q w = (Inl error, w\<lparr>queries := queries w @ [q]\<rparr>)"
  by (cases "pool w (length (queries w))") (simp_all add: executeQuery_def)

lemma authenticate_rejected:
  "oauth w (length (sent w)) = Inl error \<Longrightarrow>
     authenticateWithStrava config w =
       (Inl error,
        w\<lparr>sent := sent w @ [token_request config],
          console := console w @ [''Error authenticating with Strava:'']\<rparr>)"
  by (simp add: authenticateWithStrava_def post_token_def log_error_def)

lemma authenticate_stored:
  "oauth w (length (sent w)) = Inr response_data \<Longrightarrow> pool w (length (queries w)) = Works \<Longrightarrow>
     authenticateWithStrava config w =
       (Inr (access_token response_data),
        w\<lparr>sent := sent w @ [token_request config],
          queries := queries w @ [Update response_data],
          strava_auth := map (\<lambda>_. response_data) (strava_auth w)\<rparr>)"
  by (simp add: authenticateWithStrava_def post_token_def executeQuery_def)

lemma authenticate_not_stored:
  "oauth w (length (sent w)) = Inr response_data \<Longrightarrow> pool w (length (queries w)) \<noteq> Works \<Longrightarrow>
     \<exists>error. authenticateWithStrava config w =
       (Inl error,
        w\<lparr>sent := sent w @ [token_request config],
          queries := queries w @ [Update response_data],
          console := console w @ [''Error authenticating with Strava:'']\<rparr>)"
  by (cases "pool w (length (queries w))")
     (simp_all add: authenticateWithStrava_def post_token_def executeQuery_def log_error_def)

lemma authenticate_sent:
  "sent (snd (authenticateWithStrava config w)) = sent w @ [token_request config]"
  by (simp add: authenticateWithStrava_def post_token_def executeQuery_def log_error_def Let_def
      split: sum.split db_outcome.split)

lemma stale_read:
  "pool w (length (queries w)) = Works \<Longrightarrow> strava_auth w = row # rest \<Longrightarrow>
   token_stale now (expires_at row) \<Longrightarrow>
     ensureAccessToken_try config now w =
       authenticateWithStrava config (w\<lparr>queries := queries w @ [Select]\<rparr>)"
  by (simp add: ensureAccessToken_try_def executeQuery_Select first_row_def)

lemma fresh_read:
  "pool w (length (queries w)) = Works \<Longrightarrow> strava_auth w = row # rest \<Longrightarrow>
   \<not> token_stale now (expires_at row) \<Longrightarrow>
     ensureAccessToken_try config now w =
       (Inr (access_token row), w\<lparr>queries := queries w @ [Select]\<rparr>)"
  by (simp add: ensureAccessToken_try_def executeQuery_Select first_row_def)

lemma ensureAccessToken_world:
  "snd (ensureAccessToken config now w) = snd (ensureAccessToken_try config now w)"
  by (simp add: ensureAccessToken_def split: prod.split sum.split)

lemma token_stale_iff: "\<bar>e\<bar> \<le> 8640000000000000 \<Longrightarrow> token_stale now e = (now > e - 60000)"
  by (simp add: token_stale_def Date_getTime_def)

lemma token_stale_later: "token_stale now e \<Longrightarrow> now \<le> later \<Longrightarrow> token_stale later e"
  by (auto simp: token_stale_def split: option.splits)

lemma not_stale_before: "now \<le> e - 60000 \<Longrightarrow> \<not> token_stale now e"
  by (auto simp: token_stale_def Date_getTime_def)

lemmas sample_defs = config0_def row0_def row2_def row3_def world0_def

lemmas middleware_defs =
  ensureAccessToken_def ensureAccessToken_try_def authenticateWithStrava_def post_token_def
  executeQuery_def first_row_def log_error_def token_stale_def Date_getTime_def

section \<open>The fresh path\<close>

text \<open>
  A row whose \<open>expires_at\<close>, read as the milliseconds the check compares, lies 60000
  or more after the call time is handed on as it is: the middleware sends nothing
  upstream and leaves the table alone, the one \<^verbatim>\<open>SELECT\<close> is all it did.
\<close>

lemma fresh_token_returned:
  assumes "pool w (length (queries w)) = Works"
    and "strava_auth w = row # rest"
    and "now \<le> expires_at row - 60000"
  shows "ensureAccessToken config now w =
           (Inr (access_token row), w\<lparr>queries := queries w @ [Select]\<rparr>)
       \<and> sent (snd (ensureAccessToken config now w)) = sent w
       \<and> strava_auth (snd (ensureAccessToken config now w)) = strava_auth w"
  using assms not_stale_before [OF assms(3)]
  by (simp add: ensureAccessToken_def fresh_read)

text \<open>
  C1. The rows the program itself stores hold the upstream's \<open>expires_at\<close>, seconds
  since the epoch, and for them the fresh path is never taken. The row of
  \<open>world_seconds\<close> expires at 1700021600 s; a call at 1700000000000 ms, that is at
  1700000000 s, comes six hours before the expiry, far more than the 60 seconds asked
  for. The middleware does not hand on the stored \<open>A1\<close>: it posts an exchange,
  overwrites the row and hands on \<open>A2\<close>.
\<close>

theorem C1_fresh_row_refreshed:
  "strava_auth world_seconds = [row_seconds]
   \<and> access_token row_seconds = ''A1''
   \<and> expires_at row_seconds = 1700021600
   \<and> (1700000000000::int) = 1000 * 1700000000
   \<and> (1700000000::int) \<le> 1700021600 - 60
   \<and> fst (ensureAccessToken config0 1700000000000 world_seconds) = Inr ''A2''
   \<and> sent (snd (ensureAccessToken config0 1700000000000 world_seconds))
       = [token_request config0]
   \<and> queries (snd (ensureAccessToken config0 1700000000000 world_seconds))
       = [Select, Update row2]
   \<and> strava_auth (snd (ensureAccessToken config0 1700000000000 world_seconds)) = [row2]"
  by (simp add: middleware_defs world_seconds_def row_seconds_def sample_defs)

section \<open>The refresh exchange\<close>

text \<open>
  C2. The specification has the POST carry the \<open>refresh_token\<close> of the row just
  read. \<^verbatim>\<open>authenticateWithStrava\<close> takes no argument and sends
  \<^verbatim>\<open>config.strava.accessToken\<close> in that place: on a stale row holding \<open>R1\<close>, with
  \<open>CFG\<close> configured, the one request sent carries \<open>CFG\<close>. The client id, the secret
  and the grant type are as claimed.
\<close>

theorem C2_refresh_token_sent:
  "refresh_token row0 = ''R1''
   \<and> token_stale 1000000 (expires_at row0)
   \<and> strava_auth world0 = [row0]
   \<and> sent (snd (ensureAccessToken config0 1000000 world0)) =
       [\<lparr>req_method = POST, url = ''https://www.strava.com/oauth/token'',
         data = Some (JObject
           [(''client_id'', JString ''12345''),
            (''client_secret'', JString ''s3cret''),
            (''grant_type'', JString ''refresh_token''),
            (''refresh_token'', JString ''CFG'')]),
         authorization = None\<rparr>]"
  by (simp add: middleware_defs sample_defs token_request_def authBaseUrl_def)

text \<open>
  C4. When the read finds a stale row and the exchange is rejected, the error the
  middleware fails with is the upstream's, the client gets the 500 and no token, the
  only statement issued is the \<^verbatim>\<open>SELECT\<close>, so the table is as it was, and a request
  that comes later finds the row stale again and posts the exchange again.
\<close>

theorem C4_refresh_rejected:
  assumes "pool w (length (queries w)) = Works"
    and "strava_auth w = row # rest"
    and "token_stale now (expires_at row)"
    and "oauth w (length (sent w)) = Inl error"
  shows "fst (ensureAccessToken_try config now w) = Inl error
       \<and> fst (ensureAccessToken config now w) = Inl internal_server_error
       \<and> strava_auth (snd (ensureAccessToken config now w)) = strava_auth w
       \<and> queries (snd (ensureAccessToken config now w)) = queries w @ [Select]
       \<and> sent (snd (ensureAccessToken config now w)) = sent w @ [token_request config]
       \<and> (\<forall>later. now \<le> later \<and> pool w (Suc (length (queries w))) = Works \<longrightarrow>
            sent (snd (ensureAccessToken config later (snd (ensureAccessToken config now w))))
              = sent w @ [token_request config, token_request config])"
proof -
  let ?w1 = "w\<lparr>queries := queries w @ [Select]\<rparr>"
  let ?w2 = "?w1\<lparr>sent := sent ?w1 @ [token_request config],
          console := console ?w1 @ [''Error authenticating with Strava:'']\<rparr>"
  have tried: "ensureAccessToken_try config now w = (Inl error, ?w2)"
    using assms by (simp add: stale_read authenticate_rejected)
  then have answered: "ensureAccessToken config now w = (Inl internal_server_error, ?w2)"
    by (simp add: ensureAccessToken_def)
  have again: "sent (snd (ensureAccessToken config later ?w2))
                 = sent w @ [token_request config, token_request config]"
    if "now \<le> later" and "pool w (Suc (length (queries w))) = Works" for later
  proof -
    have "ensureAccessToken_try config later ?w2 =
            authenticateWithStrava config (?w2\<lparr>queries := queries ?w2 @ [Select]\<rparr>)"
      using assms that token_stale_later [OF assms(3) that(1)]
      by (intro stale_read [where row = row and rest = rest]) simp_all
    then have "sent (snd (ensureAccessToken_try config later ?w2)) =
            sent ?w2 @ [token_request config]"
      by (simp add: authenticate_sent)
    then show ?thesis
      by (simp add: ensureAccessToken_world)
  qed
  show ?thesis
    using tried answered again by simp
qed

theorem C4_refresh_rejected_witness:
  "pool world_rejecting (length (queries world_rejecting)) = Works
   \<and> strava_auth world_rejecting = row0 # []
   \<and> token_stale 1000000 (expires_at row0)
   \<and> oauth world_rejecting (length (sent world_rejecting)) = Inl (AxiosError (Some 400))
   \<and> fst (ensureAccessToken_try config0 1000000 world_rejecting) = Inl (AxiosError (Some 400))
   \<and> fst (ensureAccessToken config0 1000000 world_rejecting) = Inl internal_server_error
   \<and> strava_auth (snd (ensureAccessToken config0 1000000 world_rejecting)) = [row0]
   \<and> (1000000::int) \<le> 2000000
   \<and> pool world_rejecting (Suc (length (queries world_rejecting))) = Works
   \<and> sent (snd (ensureAccessToken config0 2000000
                   (snd (ensureAccessToken config0 1000000 world_rejecting))))
       = [token_request config0, token_request config0]"
proof -
  have p: "pool world_rejecting (length (queries world_rejecting)) = Works"
    by (simp add: world_rejecting_def sample_defs)
  have t: "strava_auth world_rejecting = row0 # []"
    by (simp add: world_rejecting_def sample_defs)
  have s: "token_stale 1000000 (expires_at row0)"
    by (simp add: token_stale_def Date_getTime_def row0_def)
  have r: "oauth world_rejecting (length (sent world_rejecting)) = Inl (AxiosError (Some 400))"
    by (simp add: world_rejecting_def sample_defs)
  have q: "pool world_rejecting (Suc (length (queries world_rejecting))) = Works"
    by (simp add: world_rejecting_def sample_defs)
  have e: "sent world_rejecting = []"
    by (simp add: world_rejecting_def sample_defs)
  show ?thesis
    using C4_refresh_rejected [OF p t s r, of config0] p t s r q e
    by simp
qed

text \<open>
  C7. When the exchange succeeds and the \<^verbatim>\<open>UPDATE\<close> is rejected, the middleware fails
  with an error and hands on no token: whatever the route, the client gets the 500,
  \<^verbatim>\<open>next()\<close> is not called, and the exchange itself is the only request that has
  gone out, so nothing carries the new access token.
\<close>

theorem C7_write_rejected:
  assumes "pool w (length (queries w)) = Works"
    and "strava_auth w = row # rest"
    and "token_stale now (expires_at row)"
    and "oauth w (length (sent w)) = Inr response_data"
    and "pool w (Suc (length (queries w))) \<noteq> Works"
  shows "(\<exists>error. fst (ensureAccessToken_try config now w) = Inl error)
       \<and> fst (ensureAccessToken config now w) = Inl internal_server_error
       \<and> fst (serve config now r req w) = internal_server_error
       \<and> sent (snd (serve config now r req w)) = sent w @ [token_request config]"
proof -
  let ?w1 = "w\<lparr>queries := queries w @ [Select]\<rparr>"
  obtain error w2 where a: "authenticateWithStrava config ?w1 = (Inl error, w2)"
    and s: "sent w2 = sent w @ [token_request config]"
    using authenticate_not_stored [of ?w1 response_data config] assms by auto
  have "ensureAccessToken_try config now w = (Inl error, w2)"
    using assms a by (simp add: stale_read)
  then show ?thesis
    using s by (simp add: serve_def ensureAccessToken_def)
qed

theorem C7_write_rejected_witness:
  "pool world_readonly (length (queries world_readonly)) = Works
   \<and> strava_auth world_readonly = row0 # []
   \<and> token_stale 1000000 (expires_at row0)
   \<and> oauth world_readonly (length (sent world_readonly)) = Inr row2
   \<and> pool world_readonly (Suc (length (queries world_readonly))) \<noteq> Works
   \<and> fst (ensureAccessToken_try config0 1000000 world_readonly) = Inl QueryError
   \<and> fst (ensureAccessToken config0 1000000 world_readonly) = Inl internal_server_error
   \<and> fst (serve config0 1000000 GetAthlete request_42 world_readonly) = internal_server_error
   \<and> sent (snd (serve config0 1000000 GetAthlete request_42 world_readonly))
       = [token_request config0]"
proof -
  have p: "pool world_readonly (length (queries world_readonly)) = Works"
    by (simp add: world_readonly_def sample_defs)
  have t: "strava_auth world_readonly = row0 # []"
    by (simp add: world_readonly_def sample_defs)
  have s: "token_stale 1000000 (expires_at row0)"
    by (simp add: token_stale_def Date_getTime_def row0_def)
  have r: "oauth world_readonly (length (sent world_readonly)) = Inr row2"
    by (simp add: world_readonly_def sample_defs)
  have q: "pool world_readonly (Suc (length (queries world_readonly))) \<noteq> Works"
    by (simp add: world_readonly_def sample_defs)
  have e: "fst (ensureAccessToken_try config0 1000000 world_readonly) = Inl QueryError"
    by (simp add: middleware_defs world_readonly_def sample_defs)
  have n: "sent world_readonly = []"
    by (simp add: world_readonly_def sample_defs)
  show ?thesis
    using C7_write_rejected [OF p t s r q, of config0 GetAthlete request_42] p t s r q e n
    by simp
qed

text \<open>
  C5, as stated, fails in the last minute before the expiry. From \<open>world0\<close> a call at
  1000000 refreshes and stores \<open>row2\<close>, which expires at 5000000; the very next call,
  at 4999999, is before that expiry, and yet it runs a second exchange and hands on
  \<open>A3\<close>, not \<open>A2\<close>.
\<close>

theorem C5_counterexample:
  "fst (ensureAccessToken config0 1000000 world0) = Inr ''A2''
   \<and> strava_auth (snd (ensureAccessToken config0 1000000 world0)) = [row2]
   \<and> (4999999::int) < expires_at row2
   \<and> fst (ensureAccessToken config0 4999999 (snd (ensureAccessToken config0 1000000 world0)))
       = Inr ''A3''
   \<and> sent (snd (ensureAccessToken config0 4999999
                   (snd (ensureAccessToken config0 1000000 world0))))
       = [token_request config0, token_request config0]"
  by (simp add: middleware_defs sample_defs)

text \<open>
  C5, amended. When the read finds a stale row, the exchange succeeds and the
  \<^verbatim>\<open>UPDATE\<close> is accepted, the middleware hands on the new access token and every row
  with \<^verbatim>\<open>id = 1\<close> holds exactly the three fields of the response; the very next
  call, if it comes no later than the new \<open>expires_at\<close> less 60000 and its read
  succeeds, hands on that same access token and sends nothing.
\<close>

theorem C5_refresh_stored:
  assumes "pool w (length (queries w)) = Works"
    and "strava_auth w = row # rest"
    and "token_stale now (expires_at row)"
    and "oauth w (length (sent w)) = Inr response_data"
    and "pool w (Suc (length (queries w))) = Works"
    and "pool w (Suc (Suc (length (queries w)))) = Works"
    and "later \<le> expires_at response_data - 60000"
  shows "fst (ensureAccessToken config now w) = Inr (access_token response_data)
       \<and> strava_auth (snd (ensureAccessToken config now w))
           = map (\<lambda>_. response_data) (row # rest)
       \<and> fst (ensureAccessToken config later (snd (ensureAccessToken config now w)))
           = Inr (access_token response_data)
       \<and> sent (snd (ensureAccessToken config later (snd (ensureAccessToken config now w))))
           = sent (snd (ensureAccessToken config now w))"
proof -
  let ?w1 = "w\<lparr>queries := queries w @ [Select]\<rparr>"
  let ?w2 = "?w1\<lparr>sent := sent ?w1 @ [token_request config],
          queries := queries ?w1 @ [Update response_data],
          strava_auth := map (\<lambda>_. response_data) (strava_auth ?w1)\<rparr>"
  have "ensureAccessToken_try config now w = (Inr (access_token response_data), ?w2)"
    using assms by (simp add: stale_read authenticate_stored)
  then have first: "ensureAccessToken config now w = (Inr (access_token response_data), ?w2)"
    by (simp add: ensureAccessToken_def)
  have "ensureAccessToken_try config later ?w2 =
          (Inr (access_token response_data), ?w2\<lparr>queries := queries ?w2 @ [Select]\<rparr>)"
    using assms not_stale_before [OF assms(7)]
    by (intro fresh_read [where rest = "map (\<lambda>_. response_data) rest"]) simp_all
  then have "ensureAccessToken config later ?w2 =
          (Inr (access_token response_data), ?w2\<lparr>queries := queries ?w2 @ [Select]\<rparr>)"
    by (simp add: ensureAccessToken_def)
  then show ?thesis
    using first assms(2) by simp
qed

theorem C5_refresh_stored_witness:
  "pool world0 (length (queries world0)) = Works
   \<and> strava_auth world0 = row0 # []
   \<and> token_stale 1000000 (expires_at row0)
   \<and> oauth world0 (length (sent world0)) = Inr row2
   \<and> pool world0 (Suc (length (queries world0))) = Works
   \<and> pool world0 (Suc (Suc (length (queries world0)))) = Works
   \<and> (4940000::int) \<le> expires_at row2 - 60000
   \<and> fst (ensureAccessToken config0 1000000 world0) = Inr ''A2''
   \<and> strava_auth (snd (ensureAccessToken config0 1000000 world0)) = [row2]
   \<and> fst (ensureAccessToken config0 4940000 (snd (ensureAccessToken config0 1000000 world0)))
       = Inr ''A2''
   \<and> sent (snd (ensureAccessToken config0 4940000
                   (snd (ensureAccessToken config0 1000000 world0))))
       = [token_request config0]"
proof -
  have p: "pool world0 (length (queries world0)) = Works"
    by (simp add: sample_defs)
  have t: "strava_auth world0 = row0 # []"
    by (simp add: sample_defs)
  have s: "token_stale 1000000 (expires_at row0)"
    by (simp add: token_stale_def Date_getTime_def row0_def)
  have r: "oauth world0 (length (sent world0)) = Inr row2"
    by (simp add: sample_defs)
  have q: "pool world0 (Suc (length (queries world0))) = Works"
    by (simp add: sample_defs)
  have q': "pool world0 (Suc (Suc (length (queries world0)))) = Works"
    by (simp add: sample_defs)
  have n: "(4940000::int) \<le> expires_at row2 - 60000"
    by (simp add: row2_def)
  have a: "access_token row2 = ''A2''"
    by (simp add: row2_def)
  have e: "sent (snd (ensureAccessToken config0 1000000 world0)) = [token_request config0]"
    by (simp add: middleware_defs sample_defs)
  show ?thesis
    using C5_refresh_stored [OF p t s r q q' n, of config0] p t s r q q' n a e
    by simp
qed

section \<open>Seconds against milliseconds\<close>

text \<open>
  C6. For a stored value within the range of a Date the check is
  \<open>now > expires_at - 60000\<close>, with \<open>expires_at\<close> taken as milliseconds, and a
  successful refresh stores the upstream's \<open>expires_at\<close> as it came. So when the
  stored value counts seconds (the call is made \<open>seconds\<close> s and \<open>ms\<close> ms after the
  epoch, the token expires \<open>lifetime\<close> s after the call), the row is judged stale and
  the exchange is posted, whatever the lifetime up to 999 times the age of the epoch.
\<close>

theorem C6_epoch_seconds_judged_stale:
  assumes "pool w (length (queries w)) = Works"
    and "strava_auth w = row # rest"
    and "now = 1000 * seconds + ms" and "0 \<le> ms" and "now \<le> 8640000000000000"
    and "expires_at row = seconds + lifetime"
    and "0 \<le> seconds + lifetime" and "lifetime \<le> 999 * seconds"
  shows "(\<forall>t e. \<bar>e\<bar> \<le> 8640000000000000 \<longrightarrow> token_stale t e = (t > e - 60000))
       \<and> token_stale now (expires_at row)
       \<and> sent (snd (ensureAccessToken config now w)) = sent w @ [token_request config]
       \<and> (\<forall>response_data.
             oauth w (length (sent w)) = Inr response_data
             \<and> pool w (Suc (length (queries w))) = Works \<longrightarrow>
             strava_auth (snd (ensureAccessToken config now w))
               = map (\<lambda>_. response_data) (row # rest))"
proof -
  have range: "\<bar>expires_at row\<bar> \<le> 8640000000000000"
    using assms(3-8) by arith
  have "expires_at row - 60000 < now"
    using assms(3,4,6,8) by arith
  then have stale: "token_stale now (expires_at row)"
    by (simp add: token_stale_iff [OF range])
  have tried: "ensureAccessToken_try config now w =
      authenticateWithStrava config (w\<lparr>queries := queries w @ [Select]\<rparr>)"
    using assms(1,2) stale by (rule stale_read)
  have posted: "sent (snd (ensureAccessToken config now w)) = sent w @ [token_request config]"
    by (simp add: ensureAccessToken_world tried authenticate_sent)
  have stored: "strava_auth (snd (ensureAccessToken config now w))
                  = map (\<lambda>_. response_data) (row # rest)"
    if "oauth w (length (sent w)) = Inr response_data"
      and "pool w (Suc (length (queries w))) = Works" for response_data
    using that assms(2) by (simp add: ensureAccessToken_world tried authenticate_stored)
  show ?thesis
    using stale posted stored by (simp add: token_stale_iff)
qed

theorem C6_epoch_seconds_judged_stale_witness:
  "pool world_seconds (length (queries world_seconds)) = Works
   \<and> strava_auth world_seconds = row_seconds # []
   \<and> (1700000000000::int) = 1000 * 1700000000 + 0
   \<and> (1700000000000::int) \<le> 8640000000000000
   \<and> expires_at row_seconds = 1700000000 + 21600
   \<and> (21600::int) \<le> 999 * 1700000000
   \<and> \<bar>1700021600::int\<bar> \<le> 8640000000000000
   \<and> token_stale 1700000000000 1700021600
   \<and> token_stale 1700000000000 (expires_at row_seconds)
   \<and> sent (snd (ensureAccessToken config0 1700000000000 world_seconds))
       = [token_request config0]
   \<and> oauth world_seconds (length (sent world_seconds)) = Inr row2
   \<and> pool world_seconds (Suc (length (queries world_seconds))) = Works
   \<and> strava_auth (snd (ensureAccessToken config0 1700000000000 world_seconds)) = [row2]"
proof -
  have p: "pool world_seconds (length (queries world_seconds)) = Works"
    by (simp add: world_seconds_def sample_defs)
  have t: "strava_auth world_seconds = row_seconds # []"
    by (simp add: world_seconds_def sample_defs)
  have n: "(1700000000000::int) = 1000 * 1700000000 + 0"
    by simp
  have m: "(0::int) \<le> 0"
    by simp
  have d: "(1700000000000::int) \<le> 8640000000000000"
    by simp
  have x: "expires_at row_seconds = 1700000000 + 21600"
    by (simp add: row_seconds_def)
  have z: "(0::int) \<le> 1700000000 + 21600"
    by simp
  have l: "(21600::int) \<le> 999 * 1700000000"
    by simp
  have r: "oauth world_seconds (length (sent world_seconds)) = Inr row2"
    by (simp add: world_seconds_def sample_defs)
  have q: "pool world_seconds (Suc (length (queries world_seconds))) = Works"
    by (simp add: world_seconds_def sample_defs)
  have e: "sent world_seconds = []"
    by (simp add: world_seconds_def sample_defs)
  have b: "\<bar>1700021600::int\<bar> \<le> 8640000000000000"
    by simp
  show ?thesis
    using C6_epoch_seconds_judged_stale [OF p t n m d x z l, of config0] p t x r q e
    by simp
qed

section \<open>A missing row\<close>

text \<open>
  C8, as stated, fails on an empty table. The read does not fail there: the promise
  of \<^verbatim>\<open>executeQuery\<close> resolves, with no rows. The middleware then throws on
  \<^verbatim>\<open>results[0]\<close>, inside the same \<^verbatim>\<open>try\<close>, and what the client gets is what it
  gets when the database is down: the generic 500, nothing by which a missing row
  could be told apart, and nothing that ends the process.
\<close>

theorem C8_counterexample:
  "strava_auth world_empty = []
   \<and> fst (executeQuery Select world_empty) = Inr (Rows [])
   \<and> fst (ensureAccessToken config0 0 world_empty) = Inl internal_server_error
   \<and> fst (ensureAccessToken config0 0 world_empty) = fst (ensureAccessToken config0 0 world_down)"
  by (simp add: middleware_defs world_empty_def world_down_def sample_defs)

text \<open>
  C8, amended. The read is rejected only when the pool gives no connection or the
  query errs; on a table without the row it resolves with an empty result, and the
  middleware fails on destructuring it. Either way the middleware answers the same
  generic 500 for this one request, having done nothing but the \<^verbatim>\<open>SELECT\<close>.
\<close>

theorem C8_read_failures:
  assumes "pool w (length (queries w)) \<noteq> Works \<or> strava_auth w = []"
  shows "ensureAccessToken config now w =
           (Inl internal_server_error, w\<lparr>queries := queries w @ [Select]\<rparr>)
       \<and> (pool w (length (queries w)) = Works \<longrightarrow>
            fst (executeQuery Select w) = Inr (Rows [])
            \<and> fst (ensureAccessToken_try config now w) = Inl TypeError)
       \<and> (pool w (length (queries w)) \<noteq> Works \<longrightarrow>
            (\<exists>error. error \<noteq> TypeError
               \<and> fst (executeQuery Select w) = Inl error
               \<and> fst (ensureAccessToken_try config now w) = Inl error))"
proof (cases "pool w (length (queries w)) = Works")
  case True
  then have "strava_auth w = []"
    using assms by simp
  then show ?thesis
    using True
    by (simp add: ensureAccessToken_def ensureAccessToken_try_def executeQuery_Select
        first_row_def)
next
  case False
  then obtain error where "error \<noteq> TypeError"
    and "executeQuery Select w = (Inl error, w\<lparr>queries := queries w @ [Select]\<rparr>)"
    using executeQuery_rejects [of w Select] by auto
  then show ?thesis
    using False by (auto simp: ensureAccessToken_def ensureAccessToken_try_def)
qed

theorem C8_read_failures_witness:
  "strava_auth world_empty = []
   \<and> pool world_empty (length (queries world_empty)) = Works
   \<and> ensureAccessToken config0 0 world_empty =
       (Inl internal_server_error, world_empty\<lparr>queries := [Select]\<rparr>)
   \<and> fst (ensureAccessToken_try config0 0 world_empty) = Inl TypeError
   \<and> pool world_down (length (queries world_down)) \<noteq> Works
   \<and> ensureAccessToken config0 0 world_down =
       (Inl internal_server_error, world_down\<lparr>queries := [Select]\<rparr>)
   \<and> fst (ensureAccessToken_try config0 0 world_down) = Inl PoolError"
proof -
  have t: "strava_auth world_empty = []"
    by (simp add: world_empty_def)
  have p: "pool world_empty (length (queries world_empty)) = Works"
    by (simp add: world_empty_def sample_defs)
  have q: "queries world_empty = []"
    by (simp add: world_empty_def sample_defs)
  have d: "pool world_down (length (queries world_down)) \<noteq> Works"
    by (simp add: world_down_def)
  have q': "queries world_down = []"
    by (simp add: world_down_def sample_defs)
  have e: "fst (ensureAccessToken_try config0 0 world_down) = Inl PoolError"
    by (simp add: middleware_defs world_down_def sample_defs)
  show ?thesis
    using C8_read_failures [of world_empty config0 0, OF disjI2 [OF t]]
      C8_read_failures [of world_down config0 0, OF disjI1 [OF d]]
      t p q d q' e
    by simp
qed

section \<open>Routes\<close>

text \<open>
  Every axios call a handler builds carries the token the middleware handed on, and
  a call that resolves is answered with its \<^verbatim>\<open>response.data\<close> as it came.
\<close>

lemma upstream_request_bearer:
  "upstream_request r req token = Inr request \<Longrightarrow>
     authorization request = Some (''Bearer '' @ token)"
  by (cases r) (auto simp: upstream_request_def bearer_def split: sum.splits)

lemma upstream_request_get:
  "upstream_request GetAthlete req token =
     Inr \<lparr>req_method = GET, url = ''https://www.strava.com/api/v3/athlete'',
          data = None, authorization = Some (''Bearer '' @ token)\<rparr>"
  "upstream_request GetActivity req token =
     Inr \<lparr>req_method = GET, url = ''https://www.strava.com/api/v3/activities/'' @ params_id req,
          data = None, authorization = Some (''Bearer '' @ token)\<rparr>"
  "upstream_request GetActivityComments req token =
     Inr \<lparr>req_method = GET,
          url = ''https://www.strava.com/api/v3/activities/'' @ params_id req @ ''/comments'',
          data = None, authorization = Some (''Bearer '' @ token)\<rparr>"
  "upstream_request GetAthleteActivities req token =
     Inr \<lparr>req_method = GET, url = ''https://www.strava.com/api/v3/athlete/activities'',
          data = None, authorization = Some (''Bearer '' @ token)\<rparr>"
  by (simp_all add: upstream_request_def bearer_def stravaApiBaseUrl_def)

lemma handler_passes_through:
  "upstream_request r req token = Inr request \<Longrightarrow> api w (length (sent w)) = Inr response_data \<Longrightarrow>
     handler r req token w =
       (\<lparr>status = 200, body = response_data\<rparr>, w\<lparr>sent := sent w @ [request]\<rparr>)"
  by (simp add: handler_def handler_try_def axios_def)

text \<open>
  Had a body parser filled \<^verbatim>\<open>req.body\<close> with an object, the PUT handler would forward
  its \<open>name\<close> and \<open>type\<close> members and nothing else.
\<close>

lemma put_activity_parsed_body:
  "req_body req = Some (JObject members) \<Longrightarrow>
     upstream_request PutActivity req token =
       Inr \<lparr>req_method = PUT,
            url = ''https://www.strava.com/api/v3/activities/'' @ params_id req,
            data = Some (JObject
              ((case map_of members ''name'' of None \<Rightarrow> [] | Some x \<Rightarrow> [(''name'', x)]) @
               (case map_of members ''type'' of None \<Rightarrow> [] | Some x \<Rightarrow> [(''type'', x)]))),
            authorization = Some (''Bearer '' @ token)\<rparr>"
  by (simp add: upstream_request_def destructure_def bearer_def stravaApiBaseUrl_def)

text \<open>As the application is wired, the two routes that read \<^verbatim>\<open>req.body\<close> always answer 500.\<close>

lemma app_body_routes_fail:
  "route_of m = PutActivity \<or> route_of m = PostActivities \<Longrightarrow>
     fst (app config now m w) = internal_server_error"
  by (auto simp: app_def serve_def handler_def handler_try_def upstream_request_def
      destructure_def express_request_def ensureAccessToken_def
      split: prod.splits sum.splits)

lemma serve_status:
  "fst (serve config now r req w) = internal_server_error
   \<or> status (fst (serve config now r req w)) = 200"
  by (auto simp: serve_def handler_def ensureAccessToken_def split: prod.splits sum.splits)

lemma request_ending_serve:
  "request_ending config now r req w =
     (Answered (fst (serve config now r req w)), snd (serve config now r req w))"
  by (simp add: request_ending_def ensureAccessToken_catch_def handler_catch_def serve_def
      handler_def ensureAccessToken_def internal_server_error_def
      split: prod.split sum.split)

text \<open>
  C9. Whatever the route and whatever fails, be it the \<^verbatim>\<open>try\<close> block of the
  middleware (the read, the destructuring, the exchange, the write) or the one of the
  handler (building or sending the upstream request, whatever status the upstream
  answered), the client gets status 500 with the body
  \<^verbatim>\<open>{ error: 'Internal Server Error' }\<close>, the same for every error. And every
  request, failed or not, ends answered: no error gets out of the two \<^verbatim>\<open>catch\<close>
  blocks, so none reaches the process.
\<close>

theorem C9_failure_answered_500:
  "(\<exists>response. fst (request_ending config now r req w) = Answered response)
   \<and> (fst (ensureAccessToken_try config now w) = Inl error
        \<or> (\<exists>token w1. ensureAccessToken_try config now w = (Inr token, w1)
              \<and> fst (handler_try r req token w1) = Inl error)
       \<longrightarrow> fst (request_ending config now r req w)
             = Answered \<lparr>status = 500,
                 body = JObject [(''error'', JString ''Internal Server Error'')]\<rparr>
           \<and> fst (serve config now r req w)
             = \<lparr>status = 500, body = JObject [(''error'', JString ''Internal Server Error'')]\<rparr>)"
proof -
  have answered: "\<exists>response. fst (request_ending config now r req w) = Answered response"
    by (simp add: request_ending_def ensureAccessToken_catch_def handler_catch_def
        split: prod.split sum.split)
  have failed: "fst (request_ending config now r req w)
             = Answered \<lparr>status = 500,
                 body = JObject [(''error'', JString ''Internal Server Error'')]\<rparr>
           \<and> fst (serve config now r req w)
             = \<lparr>status = 500, body = JObject [(''error'', JString ''Internal Server Error'')]\<rparr>"
    if "fst (ensureAccessToken_try config now w) = Inl error
        \<or> (\<exists>token w1. ensureAccessToken_try config now w = (Inr token, w1)
              \<and> fst (handler_try r req token w1) = Inl error)"
    using that
    by (auto simp: request_ending_def ensureAccessToken_catch_def handler_catch_def serve_def
        handler_def ensureAccessToken_def internal_server_error_def
        split: prod.splits sum.splits)
  show ?thesis
    using answered failed by blast
qed

theorem C9_failure_answered_500_witness:
  "fst (ensureAccessToken_try config0 0 world_down) = Inl PoolError
   \<and> fst (request_ending config0 0 GetAthlete request_42 world_down)
       = Answered \<lparr>status = 500,
           body = JObject [(''error'', JString ''Internal Server Error'')]\<rparr>
   \<and> fst (serve config0 0 GetAthlete request_42 world_down)
       = \<lparr>status = 500, body = JObject [(''error'', JString ''Internal Server Error'')]\<rparr>
   \<and> ensureAccessToken_try config0 0 world_api_404
       = (Inr ''A1'', world_api_404\<lparr>queries := [Select]\<rparr>)
   \<and> fst (handler_try GetActivity request_42 ''A1'' (world_api_404\<lparr>queries := [Select]\<rparr>))
       = Inl (AxiosError (Some 404))
   \<and> fst (request_ending config0 0 GetActivity request_42 world_api_404)
       = Answered \<lparr>status = 500,
           body = JObject [(''error'', JString ''Internal Server Error'')]\<rparr>
   \<and> fst (serve config0 0 GetActivity request_42 world_api_404)
       = \<lparr>status = 500, body = JObject [(''error'', JString ''Internal Server Error'')]\<rparr>
   \<and> fst (request_ending config0 0 GetActivity request_42 world0)
       = Answered \<lparr>status = 200, body = JObject []\<rparr>"
proof -
  have a: "fst (ensureAccessToken_try config0 0 world_down) = Inl PoolError"
    by (simp add: middleware_defs world_down_def sample_defs)
  have b: "ensureAccessToken_try config0 0 world_api_404
             = (Inr ''A1'', world_api_404\<lparr>queries := [Select]\<rparr>)"
    by (simp add: middleware_defs world_api_404_def sample_defs)
  have c: "fst (handler_try GetActivity request_42 ''A1'' (world_api_404\<lparr>queries := [Select]\<rparr>))
             = Inl (AxiosError (Some 404))"
    by (simp add: handler_try_def upstream_request_def axios_def world_api_404_def sample_defs)
  have d: "\<exists>token w1. ensureAccessToken_try config0 0 world_api_404 = (Inr token, w1)
             \<and> fst (handler_try GetActivity request_42 token w1) = Inl (AxiosError (Some 404))"
    using b c by blast
  have e: "fst (request_ending config0 0 GetActivity request_42 world0)
             = Answered \<lparr>status = 200, body = JObject []\<rparr>"
    by (simp add: request_ending_def handler_try_def upstream_request_def axios_def
        middleware_defs sample_defs)
  show ?thesis
    using C9_failure_answered_500 [of config0 0 GetAthlete request_42 world_down PoolError]
      C9_failure_answered_500 [of config0 0 GetActivity request_42 world_api_404
        "AxiosError (Some 404)"] a b c d e
    by simp
qed

text \<open>
  C10. The GET routes forward as claimed. The PUT route does not: a client's
  \<^verbatim>\<open>PUT /activities/42\<close> with \<open>name\<close> and \<open>type\<close> in its JSON body, on a fresh token,
  gets the token \<open>A1\<close> from the middleware, and then the destructuring of
  \<^verbatim>\<open>req.body\<close>, which nothing has parsed, throws: the client gets the 500, and no
  request has gone upstream.
\<close>

theorem C10_put_activity_not_forwarded:
  "fst (ensureAccessToken config0 0 world0) = Inr ''A1''
   \<and> fst (app config0 0 put_42 world0) = internal_server_error
   \<and> sent (snd (app config0 0 put_42 world0)) = []
   \<and> console (snd (app config0 0 put_42 world0)) = [''Error updating activity:'']"
  by (simp add: app_def serve_def handler_def handler_try_def upstream_request_def
      destructure_def express_request_def error_message_def put_42_def middleware_defs
      sample_defs)

section \<open>One exchange for each request\<close>

text \<open>
  A request that is resumed four times with nothing in between has gone through the
  middleware as \<^verbatim>\<open>ensureAccessToken\<close> describes it: the continuations are the
  function, cut at its awaits.
\<close>

lemma run_alone:
  "run config [(0, now), (0, now), (0, now), (0, now)] ([Start], w) =
     ([Finished (fst (ensureAccessToken config now w))], snd (ensureAccessToken config now w))"
proof -
  obtain a w1 where q: "executeQuery Select w = (a, w1)"
    by (cases "executeQuery Select w")
  show ?thesis
  proof (cases a)
    case (Inl error)
    then show ?thesis
      using q by (simp add: run_def step_def ensureAccessToken_def ensureAccessToken_try_def)
  next
    case (Inr results)
    show ?thesis
    proof (cases "first_row results")
      case (Inl error)
      then show ?thesis
        using q Inr by (simp add: run_def step_def ensureAccessToken_def ensureAccessToken_try_def)
    next
      case row: (Inr row)
      show ?thesis
      proof (cases "token_stale now (expires_at row)")
        case False
        then show ?thesis
          using q Inr row
          by (simp add: run_def step_def ensureAccessToken_def ensureAccessToken_try_def)
      next
        case True
        obtain b w2 where p: "post_token config w1 = (b, w2)"
          by (cases "post_token config w1")
        show ?thesis
        proof (cases b)
          case (Inl error)
          then show ?thesis
            using q Inr row True p
            by (simp add: run_def step_def ensureAccessToken_def ensureAccessToken_try_def
                authenticateWithStrava_def)
        next
          case d: (Inr response_data)
          obtain c w3 where u: "executeQuery (Update response_data) w2 = (c, w3)"
            by (cases "executeQuery (Update response_data) w2")
          show ?thesis
            using q Inr row True p d u
            by (cases c)
              (simp_all add: run_def step_def ensureAccessToken_def ensureAccessToken_try_def
                authenticateWithStrava_def)
        qed
      qed
    qed
  qed
qed

text \<open>
  Whatever the schedule, a continuation posts an exchange only when it leaves the
  await of the \<^verbatim>\<open>SELECT\<close>, so each request posts at most once.
\<close>

lemma refresh_calls_simps:
  "refresh_calls (w\<lparr>queries := qs\<rparr>) = refresh_calls w"
  "refresh_calls (w\<lparr>console := c\<rparr>) = refresh_calls w"
  "refresh_calls (w\<lparr>strava_auth := rows\<rparr>) = refresh_calls w"
  "refresh_calls (w\<lparr>sent := sent w @ [token_request config]\<rparr>) = Suc (refresh_calls w)"
  by (simp_all add: refresh_calls_def is_refresh_def token_request_def)

lemma refresh_calls_executeQuery:
  "refresh_calls (snd (executeQuery q w)) = refresh_calls w"
  by (simp add: refresh_calls_def executeQuery_frame)

lemma resume_potential:
  "resume config now w t = (t', w') \<Longrightarrow>
     refresh_calls w' + undecided t' \<le> refresh_calls w + undecided t
     \<and> refresh_calls w \<le> refresh_calls w'"
proof (induction config now w t rule: resume.induct)
  case (1 config now w)
  then show ?case
    using refresh_calls_executeQuery [of Select w]
    by (auto simp: undecided_def split: prod.splits)
next
  case (3 config now w results)
  then show ?case
    by (auto simp: undecided_def post_token_def refresh_calls_simps
        split: sum.splits if_splits)
next
  case (5 config now w response_data)
  then show ?case
    using refresh_calls_executeQuery [of "Update response_data" w]
    by (auto simp: undecided_def split: prod.splits)
qed (auto simp: undecided_def log_error_def refresh_calls_simps)

lemma sum_list_update_nat:
  fixes xs :: "nat list"
  assumes "i < length xs"
  shows "sum_list (xs[i := y]) + xs ! i = sum_list xs + y"
  using assms
  by (induction xs arbitrary: i) (auto split: nat.splits)

lemma step_potential:
  "potential (step config s c) \<le> potential c
   \<and> refresh_calls (snd c) \<le> refresh_calls (snd (step config s c))
   \<and> length (fst (step config s c)) = length (fst c)"
proof -
  obtain i now where s: "s = (i, now)" by (cases s)
  obtain ts w where c: "c = (ts, w)" by (cases c)
  show ?thesis
  proof (cases "i < length ts")
    case False
    then show ?thesis by (simp add: step_def s c)
  next
    case True
    obtain t' w' where r: "resume config now w (ts ! i) = (t', w')"
      by (cases "resume config now w (ts ! i)")
    have st: "step config s (ts, w) = (ts[i := t'], w')"
      using True r by (simp add: step_def s)
    have p: "refresh_calls w' + undecided t' \<le> refresh_calls w + undecided (ts ! i)"
      and m: "refresh_calls w \<le> refresh_calls w'"
      using resume_potential [OF r] by simp_all
    have "sum_list ((map undecided ts)[i := undecided t']) + (map undecided ts) ! i
            = sum_list (map undecided ts) + undecided t'"
      using True by (intro sum_list_update_nat) simp
    then have "sum_list (map undecided (ts[i := t'])) + undecided (ts ! i)
            = sum_list (map undecided ts) + undecided t'"
      using True by (simp add: map_update)
    then show ?thesis
      using p m by (simp add: st c potential_def)
  qed
qed

lemma run_potential:
  "potential (run config schedule c) \<le> potential c
   \<and> refresh_calls (snd c) \<le> refresh_calls (snd (run config schedule c))
   \<and> length (fst (run config schedule c)) = length (fst c)"
proof (induction schedule arbitrary: c)
  case Nil
  then show ?case by (simp add: run_def)
next
  case (Cons s schedule)
  have "run config (s # schedule) c = run config schedule (step config s c)"
    by (simp add: run_def)
  then show ?case
    using Cons [of "step config s c"] step_potential [of config s c]
    by (metis le_trans)
qed

lemma run_append: "run config (xs @ ys) c = run config ys (run config xs c)"
  by (simp add: run_def)

lemma run_round_robin:
  "run config (map (\<lambda>i. (length pre + i, now)) [0..<length ts]) (pre @ ts, w) =
     (pre @ fst (sweep config now ts w), snd (sweep config now ts w))"
proof (induction ts arbitrary: pre w)
  case Nil
  then show ?case by (simp add: run_def)
next
  case (Cons t ts)
  obtain t' w1 where r: "resume config now w t = (t', w1)"
    by (cases "resume config now w t")
  have idx: "[0..<length (t # ts)] = 0 # map Suc [0..<length ts]"
    by (metis length_Cons map_Suc_upt upt_conv_Cons zero_less_Suc)
  have first: "step config (length pre, now) (pre @ t # ts, w) = ((pre @ [t']) @ ts, w1)"
    using r by (simp add: step_def)
  have "run config (map (\<lambda>i. (length pre + i, now)) [0..<length (t # ts)]) (pre @ t # ts, w)
      = run config (map (\<lambda>i. (length (pre @ [t']) + i, now)) [0..<length ts])
          ((pre @ [t']) @ ts, w1)"
    unfolding idx using first by (simp add: run_def comp_def)
  also have "\<dots> = ((pre @ [t']) @ fst (sweep config now ts w1), snd (sweep config now ts w1))"
    by (rule Cons.IH)
  finally show ?case
    using r by (simp split: prod.splits)
qed

lemma round_robin_sweep:
  "run config (round_robin (length ts) now) (ts, w) = sweep config now ts w"
  using run_round_robin [of config "[]" now ts w] by (simp add: round_robin_def)

lemma sweep_Start:
  "\<forall>k<n. pool w (length (queries w) + k) = Works \<Longrightarrow>
     sweep config now (replicate n Start) w =
       (replicate n (AwaitSelect (Inr (Rows (strava_auth w)))),
        w\<lparr>queries := queries w @ replicate n Select\<rparr>)"
proof (induction n arbitrary: w)
  case 0
  then show ?case by simp
next
  case (Suc n)
  let ?w1 = "w\<lparr>queries := queries w @ [Select]\<rparr>"
  have "pool w (length (queries w)) = Works"
    using Suc.prems by (metis add_0_right zero_less_Suc)
  then have r: "resume config now w Start = (AwaitSelect (Inr (Rows (strava_auth w))), ?w1)"
    by (simp add: executeQuery_Select)
  have "\<forall>k<n. pool ?w1 (length (queries ?w1) + k) = Works"
    using Suc.prems by (auto dest: spec [where x = "Suc k" for k])
  then have "sweep config now (replicate n Start) ?w1 =
       (replicate n (AwaitSelect (Inr (Rows (strava_auth ?w1)))),
        ?w1\<lparr>queries := queries ?w1 @ replicate n Select\<rparr>)"
    by (rule Suc.IH)
  then show ?case
    using r by (simp add: replicate_app_Cons_same)
qed

lemma sweep_AwaitSelect:
  "token_stale now (expires_at row) \<Longrightarrow>
     refresh_calls (snd (sweep config now (replicate n (AwaitSelect (Inr (Rows (row # rest))))) w))
       = refresh_calls w + n
     \<and> sum_list (map undecided
         (fst (sweep config now (replicate n (AwaitSelect (Inr (Rows (row # rest))))) w))) = 0"
proof (induction n arbitrary: w)
  case 0
  then show ?case by simp
next
  case (Suc n)
  let ?w1 = "w\<lparr>sent := sent w @ [token_request config]\<rparr>"
  have r: "resume config now w (AwaitSelect (Inr (Rows (row # rest))))
             = (AwaitPost (oauth w (length (sent w))), ?w1)"
    using Suc.prems by (simp add: first_row_def post_token_def)
  have unfolded: "sweep config now (replicate (Suc n) (AwaitSelect (Inr (Rows (row # rest))))) w =
      (case sweep config now (replicate n (AwaitSelect (Inr (Rows (row # rest))))) ?w1 of
         (ts', w2) \<Rightarrow> (AwaitPost (oauth w (length (sent w))) # ts', w2))"
    by (simp only: replicate_Suc sweep.simps r prod.case)
  show ?case
    unfolding unfolded
    using Suc.IH [OF Suc.prems, of ?w1]
    by (simp add: refresh_calls_simps undecided_def case_prod_beta)
qed

lemma sweep_posts:
  "token_stale now (expires_at row) \<Longrightarrow>
   \<forall>k<n. oauth w (length (sent w) + k) = Inr (reply k) \<Longrightarrow>
     sweep config now (replicate n (AwaitSelect (Inr (Rows (row # rest))))) w =
       (map (\<lambda>k. AwaitPost (Inr (reply k))) [0..<n],
        w\<lparr>sent := sent w @ replicate n (token_request config)\<rparr>)"
proof (induction n arbitrary: w reply)
  case 0
  then show ?case by simp
next
  case (Suc n)
  let ?read = "AwaitSelect (Inr (Rows (row # rest)))"
  let ?w1 = "w\<lparr>sent := sent w @ [token_request config]\<rparr>"
  have "oauth w (length (sent w)) = Inr (reply 0)"
    using Suc.prems(2) by (metis add_0_right zero_less_Suc)
  then have r: "resume config now w ?read = (AwaitPost (Inr (reply 0)), ?w1)"
    using Suc.prems(1) by (simp add: first_row_def post_token_def)
  have "oauth ?w1 (length (sent ?w1) + k) = Inr (reply (Suc k))" if "k < n" for k
    using Suc.prems(2) [rule_format, of "Suc k"] that by simp
  then have "\<forall>k<n. oauth ?w1 (length (sent ?w1) + k) = Inr (reply (Suc k))"
    by blast
  then have ih: "sweep config now (replicate n ?read) ?w1 =
       (map (\<lambda>k. AwaitPost (Inr (reply (Suc k)))) [0..<n],
        ?w1\<lparr>sent := sent ?w1 @ replicate n (token_request config)\<rparr>)"
    by (rule Suc.IH [OF Suc.prems(1)])
  have "sweep config now (replicate (Suc n) ?read) w =
      (case sweep config now (replicate n ?read) ?w1 of
         (ts', w2) \<Rightarrow> (AwaitPost (Inr (reply 0)) # ts', w2))"
    by (simp only: replicate_Suc sweep.simps r prod.case)
  then show ?case
    by (simp add: ih map_upt_Suc del: upt_Suc)
qed

lemma sweep_updates:
  "\<forall>k<length ds. pool w (length (queries w) + k) = Works \<Longrightarrow>
     fst (sweep config now (map (\<lambda>d. AwaitPost (Inr d)) ds) w) =
       map (\<lambda>d. AwaitUpdate (access_token d) (Inr OkPacket)) ds
     \<and> sent (snd (sweep config now (map (\<lambda>d. AwaitPost (Inr d)) ds) w)) = sent w"
proof (induction ds arbitrary: w)
  case Nil
  then show ?case by simp
next
  case (Cons d ds)
  let ?w1 = "w\<lparr>queries := queries w @ [Update d], strava_auth := map (\<lambda>_. d) (strava_auth w)\<rparr>"
  have "pool w (length (queries w)) = Works"
    using Cons.prems by (metis add_0_right length_greater_0_conv list.distinct(1))
  then have r: "resume config now w (AwaitPost (Inr d)) =
      (AwaitUpdate (access_token d) (Inr OkPacket), ?w1)"
    by (simp add: executeQuery_Update)
  have "\<forall>k<length ds. pool ?w1 (length (queries ?w1) + k) = Works"
    using Cons.prems by (auto dest: spec [where x = "Suc k" for k])
  then have ih: "fst (sweep config now (map (\<lambda>d. AwaitPost (Inr d)) ds) ?w1) =
       map (\<lambda>d. AwaitUpdate (access_token d) (Inr OkPacket)) ds
     \<and> sent (snd (sweep config now (map (\<lambda>d. AwaitPost (Inr d)) ds) ?w1)) = sent ?w1"
    by (rule Cons.IH)
  have "sweep config now (map (\<lambda>d. AwaitPost (Inr d)) (d # ds)) w =
      (case sweep config now (map (\<lambda>d. AwaitPost (Inr d)) ds) ?w1 of
         (ts', w2) \<Rightarrow> (AwaitUpdate (access_token d) (Inr OkPacket) # ts', w2))"
    by (simp only: list.map sweep.simps r prod.case)
  then show ?case
    using ih by (simp add: case_prod_beta)
qed

lemma sweep_finish:
  "sweep config now (map (\<lambda>d. AwaitUpdate (access_token d) (Inr answer)) ds) w =
     (map (\<lambda>d. Finished (Inr (access_token d))) ds, w)"
  by (induction ds) simp_all

lemma calls_bound:
  "refresh_calls (snd (run config schedule (replicate n Start, w))) \<le> refresh_calls w + n"
proof -
  have "potential (run config schedule (replicate n Start, w))
          \<le> potential (replicate n Start, w)"
    using run_potential [of config schedule "(replicate n Start, w)"] by simp
  then show ?thesis
    by (simp add: potential_def undecided_def sum_list_replicate)
qed

lemma reads_first_calls:
  assumes "strava_auth w = row # rest"
    and "token_stale now (expires_at row)"
    and "\<forall>k<n. pool w (length (queries w) + k) = Works"
  shows "refresh_calls (snd (run config (round_robin n now @ round_robin n now @ schedule)
            (replicate n Start, w))) = refresh_calls w + n"
proof -
  let ?read = "AwaitSelect (Inr (Rows (row # rest)))"
  let ?w1 = "w\<lparr>queries := queries w @ replicate n Select\<rparr>"
  have one: "run config (round_robin n now) (replicate n Start, w) = (replicate n ?read, ?w1)"
    using round_robin_sweep [of config "replicate n Start" now w] sweep_Start [OF assms(3)] assms(1)
    by simp
  let ?c2 = "sweep config now (replicate n ?read) ?w1"
  have two: "run config (round_robin n now) (replicate n ?read, ?w1) = ?c2"
    using round_robin_sweep [of config "replicate n ?read" now ?w1] by simp
  have calls: "refresh_calls (snd ?c2) = refresh_calls w + n"
    and settled: "sum_list (map undecided (fst ?c2)) = 0"
    using sweep_AwaitSelect [OF assms(2), of config n rest ?w1]
    by (simp_all add: refresh_calls_simps)
  have "potential (run config schedule ?c2) \<le> potential ?c2"
    and "refresh_calls (snd ?c2) \<le> refresh_calls (snd (run config schedule ?c2))"
    using run_potential [of config schedule ?c2] by simp_all
  then have "refresh_calls (snd (run config schedule ?c2)) = refresh_calls w + n"
    using calls settled by (simp add: potential_def)
  then show ?thesis
    by (simp add: run_append one two)
qed

lemma reads_first_tokens:
  assumes "strava_auth w = row # rest"
    and "token_stale now (expires_at row)"
    and "\<forall>k<n. pool w (length (queries w) + k) = Works"
    and "\<forall>k<n. pool w (length (queries w) + n + k) = Works"
    and "\<forall>k<n. oauth w (length (sent w) + k) = Inr (reply k)"
  shows "fst (run config
             (round_robin n now @ round_robin n now @ round_robin n now @ round_robin n now)
             (replicate n Start, w))
           = map (\<lambda>k. Finished (Inr (access_token (reply k)))) [0..<n]"
proof -
  let ?read = "AwaitSelect (Inr (Rows (row # rest)))"
  define ds where "ds = map reply [0..<n]"
  have len: "length ds = n"
    by (simp add: ds_def)
  let ?w1 = "w\<lparr>queries := queries w @ replicate n Select\<rparr>"
  let ?w2 = "?w1\<lparr>sent := sent ?w1 @ replicate n (token_request config)\<rparr>"
  have one: "run config (round_robin n now) (replicate n Start, w) = (replicate n ?read, ?w1)"
    using round_robin_sweep [of config "replicate n Start" now w] sweep_Start [OF assms(3)] assms(1)
    by simp
  have "\<forall>k<n. oauth ?w1 (length (sent ?w1) + k) = Inr (reply k)"
    using assms(5) by simp
  then have "sweep config now (replicate n ?read) ?w1 =
      (map (\<lambda>k. AwaitPost (Inr (reply k))) [0..<n], ?w2)"
    by (rule sweep_posts [OF assms(2)])
  then have two: "run config (round_robin n now) (replicate n ?read, ?w1) =
      (map (\<lambda>d. AwaitPost (Inr d)) ds, ?w2)"
    using round_robin_sweep [of config "replicate n ?read" now ?w1] by (simp add: ds_def comp_def)
  obtain ts3 w3 where c3: "sweep config now (map (\<lambda>d. AwaitPost (Inr d)) ds) ?w2 = (ts3, w3)"
    by (cases "sweep config now (map (\<lambda>d. AwaitPost (Inr d)) ds) ?w2")
  have "\<forall>k<length ds. pool ?w2 (length (queries ?w2) + k) = Works"
    using assms(4) by (simp add: len)
  then have tasks3: "ts3 = map (\<lambda>d. AwaitUpdate (access_token d) (Inr OkPacket)) ds"
    using sweep_updates [of ds ?w2 config now] c3 by simp
  have three: "run config (round_robin n now) (map (\<lambda>d. AwaitPost (Inr d)) ds, ?w2) = (ts3, w3)"
    using round_robin_sweep [of config "map (\<lambda>d. AwaitPost (Inr d)) ds" now ?w2] c3
    by (simp add: len)
  have four: "run config (round_robin n now) (ts3, w3) =
      (map (\<lambda>d. Finished (Inr (access_token d))) ds, w3)"
    using round_robin_sweep [of config ts3 now w3]
    by (simp add: tasks3 len sweep_finish)
  have "map (\<lambda>d. Finished (Inr (access_token d))) ds =
      map (\<lambda>k. Finished (Inr (access_token (reply k)))) [0..<n]"
    by (simp add: ds_def comp_def)
  moreover have "run config
      (round_robin n now @ round_robin n now @ round_robin n now @ round_robin n now)
      (replicate n Start, w) = (map (\<lambda>d. Finished (Inr (access_token d))) ds, w3)"
    by (simp only: run_append one two three four)
  ultimately show ?thesis
    by simp
qed

text \<open>
  C3, as stated, fails for two callers. On the stale row of \<open>world0\<close>, with the two
  requests taking turns at every await, both read the row before either has written,
  both post an exchange, and they end with different tokens: \<open>A2\<close> for the first,
  \<open>A3\<close> for the second.
\<close>

theorem C3_counterexample:
  "strava_auth world0 = [row0]
   \<and> token_stale 1000000 (expires_at row0)
   \<and> fst (run config0
        [(0, 1000000), (1, 1000000), (0, 1000000), (1, 1000000),
         (0, 1000000), (1, 1000000), (0, 1000000), (1, 1000000)]
        ([Start, Start], world0)) = [Finished (Inr ''A2''), Finished (Inr ''A3'')]
   \<and> refresh_calls (snd (run config0
        [(0, 1000000), (1, 1000000), (0, 1000000), (1, 1000000),
         (0, 1000000), (1, 1000000), (0, 1000000), (1, 1000000)]
        ([Start, Start], world0))) = 2"
  by (simp add: run_def step_def refresh_calls_def is_refresh_def token_request_def
      middleware_defs sample_defs)

text \<open>
  C3, amended. Nothing in the file makes a request wait for, or share, another
  request's exchange. When \<open>n\<close> requests have all read a stale row before any of
  them goes on, each posts its own exchange: \<open>n\<close> upstream refresh calls, whatever
  the schedule does afterwards (one call for a single caller); when the exchanges and
  the writes succeed and the requests keep taking turns, request \<open>k\<close> ends with the
  access token of the answer to its own exchange. Under every schedule there are at
  most \<open>n\<close> calls, one per request.
\<close>

theorem C3_one_refresh_per_caller:
  assumes "strava_auth w = row # rest"
    and "token_stale now (expires_at row)"
    and "\<forall>k<n. pool w (length (queries w) + k) = Works"
  shows "refresh_calls (snd (run config (round_robin n now @ round_robin n now @ schedule)
            (replicate n Start, w))) = refresh_calls w + n
       \<and> refresh_calls (snd (run config any_schedule (replicate n Start, w)))
           \<le> refresh_calls w + n
       \<and> ((\<forall>k<n. pool w (length (queries w) + n + k) = Works)
            \<and> (\<forall>k<n. oauth w (length (sent w) + k) = Inr (reply k)) \<longrightarrow>
          fst (run config
                 (round_robin n now @ round_robin n now @ round_robin n now @ round_robin n now)
                 (replicate n Start, w))
            = map (\<lambda>k. Finished (Inr (access_token (reply k)))) [0..<n])"
  using reads_first_calls [OF assms] calls_bound reads_first_tokens [OF assms]
  by blast

theorem C3_one_refresh_per_caller_witness:
  "strava_auth world0 = row0 # []
   \<and> token_stale 1000000 (expires_at row0)
   \<and> pool world0 (length (queries world0) + 0) = Works
   \<and> pool world0 (length (queries world0) + 1) = Works
   \<and> pool world0 (length (queries world0) + 2 + 0) = Works
   \<and> pool world0 (length (queries world0) + 2 + 1) = Works
   \<and> oauth world0 (length (sent world0) + 0) = Inr row2
   \<and> oauth world0 (length (sent world0) + 1) = Inr row3
   \<and> refresh_calls (snd (run config0
        (round_robin 2 1000000 @ round_robin 2 1000000 @ round_robin 2 1000000)
        (replicate 2 Start, world0))) = 2
   \<and> refresh_calls (snd (run config0 [(1, 1000000), (1, 1000000)] (replicate 2 Start, world0)))
       \<le> 2
   \<and> fst (run config0
        (round_robin 2 1000000 @ round_robin 2 1000000
           @ round_robin 2 1000000 @ round_robin 2 1000000)
        (replicate 2 Start, world0)) = [Finished (Inr ''A2''), Finished (Inr ''A3'')]"
proof -
  have t: "strava_auth world0 = row0 # []"
    by (simp add: sample_defs)
  have s: "token_stale 1000000 (expires_at row0)"
    by (simp add: token_stale_def Date_getTime_def row0_def)
  have p: "\<forall>k<2. pool world0 (length (queries world0) + k) = Works"
    by (simp add: sample_defs)
  have p': "\<forall>k<2. pool world0 (length (queries world0) + 2 + k) = Works"
    by (simp add: sample_defs)
  have r: "\<forall>k<2. oauth world0 (length (sent world0) + k)
             = Inr ((\<lambda>k. if k = 0 then row2 else row3) k)"
    by (simp add: sample_defs)
  have z: "refresh_calls world0 = 0"
    by (simp add: refresh_calls_def sample_defs)
  have facts: "pool world0 (length (queries world0) + 0) = Works"
    "pool world0 (length (queries world0) + 1) = Works"
    "pool world0 (length (queries world0) + 2 + 0) = Works"
    "pool world0 (length (queries world0) + 2 + 1) = Works"
    "oauth world0 (length (sent world0) + 0) = Inr row2"
    "oauth world0 (length (sent world0) + 1) = Inr row3"
    by (simp_all add: sample_defs)
  have a: "access_token row2 = ''A2''" "access_token row3 = ''A3''"
    by (simp_all add: row2_def row3_def)
  have "map (\<lambda>k. Finished (Inr (access_token (if k = 0 then row2 else row3)))) [0..<2]
          = [Finished (Inr ''A2''), Finished (Inr ''A3'')]"
    by (simp add: a upt_rec)
  then show ?thesis
    using C3_one_refresh_per_caller [OF t s p, of config0 "round_robin 2 1000000"
        "[(1, 1000000), (1, 1000000)]" "\<lambda>k. if k = 0 then row2 else row3"] p' r t s z facts
    by simp
qed

end
